theory Spec2Isabelle
  imports Complex_Main "HOL-Library.Sublist"
begin

section \<open>Python strings and integers\<close>

text \<open>
  A \<open>str\<close> is the list of its characters, a character being a code point below 256.
  The library functions the repository calls on strings are written out for these:
  \<open>str.strip\<close>, \<open>str.rstrip\<close>, the substring test \<open>in\<close>, \<open>str.split\<close>,
  \<open>str.replace\<close>, \<open>str\<close> of an integer and \<open>int\<close> of a string.
\<close>

text \<open>The characters for which \<open>str.isspace\<close> holds; \<open>str.strip()\<close> removes these.\<close>

definition is_space :: "char \<Rightarrow> bool" where
  "is_space c = (c \<in> set [CHR 0x09, CHR 0x0A, CHR 0x0B, CHR 0x0C, CHR 0x0D,
                           CHR 0x1C, CHR 0x1D, CHR 0x1E, CHR 0x1F, CHR '' '',
                           CHR 0x85, CHR 0xA0])"

definition lstrip :: "string \<Rightarrow> string" where
  "lstrip s = dropWhile is_space s"

definition rstrip_chars :: "(char \<Rightarrow> bool) \<Rightarrow> string \<Rightarrow> string" where
  "rstrip_chars p s = rev (dropWhile p (rev s))"

definition strip :: "string \<Rightarrow> string" where
  "strip s = rstrip_chars is_space (lstrip s)"

text \<open>\<open>pat in s\<close>\<close>

fun contains :: "string \<Rightarrow> string \<Rightarrow> bool" where
  "contains pat [] = (pat = [])"
| "contains pat (c # cs) = (prefix pat (c # cs) \<or> contains pat cs)"

text \<open>\<open>s.split(sep)\<close> for a separator of one character: one piece more than separators.\<close>

fun split_on :: "char \<Rightarrow> string \<Rightarrow> string list" where
  "split_on sep [] = [[]]"
| "split_on sep (c # cs) =
     (if c = sep then [] # split_on sep cs
      else (case split_on sep cs of
              [] \<Rightarrow> [[c]]
            | p # ps \<Rightarrow> (c # p) # ps))"

text \<open>\<open>s.replace(old, new)\<close>: every occurrence, left to right, without overlap.\<close>

function replace_all :: "string \<Rightarrow> string \<Rightarrow> string \<Rightarrow> string" where
  "replace_all old new [] = (if old = [] then new else [])"
| "replace_all old new (c # cs) =
     (if old = [] then new @ c # replace_all old new cs
      else if prefix old (c # cs) then new @ replace_all old new (drop (length old) (c # cs))
      else c # replace_all old new cs)"
  by pat_completeness auto
termination
  by (relation "measure (\<lambda>(old, new, s). length s)") auto

fun str_nat :: "nat \<Rightarrow> string" where
  "str_nat n = (if n < 10 then [''0123456789'' ! n]
                else str_nat (n div 10) @ [''0123456789'' ! (n mod 10)])"

declare str_nat.simps [simp del]

text \<open>\<open>str(i)\<close> for an integer.\<close>

definition str_int :: "int \<Rightarrow> string" where
  "str_int i = (if i < 0 then CHR ''-'' # str_nat (nat (- i)) else str_nat (nat i))"

definition is_digit :: "char \<Rightarrow> bool" where
  "is_digit c = (c \<in> set ''0123456789'')"

text \<open>Decimal digits, with single underscores allowed between two digits.\<close>

fun digits_ok :: "string \<Rightarrow> bool" where
  "digits_ok [] = False"
| "digits_ok (c # r) =
     (is_digit c \<and>
      (case r of
         [] \<Rightarrow> True
       | d # r' \<Rightarrow> if d = CHR ''_'' then digits_ok r' else digits_ok r))"

definition digit_val :: "char \<Rightarrow> int" where
  "digit_val c = int (of_char c) - 48"

definition digits_value :: "string \<Rightarrow> int" where
  "digits_value s =
     foldl (\<lambda>acc c. if c = CHR ''_'' then acc else 10 * acc + digit_val c) 0 s"

text \<open>
  The whitespace that \<open>int\<close> skips around a literal: the six characters of C's
  \<open>isspace\<close>, and the two spaces above ASCII, which are turned into blanks first. The
  separators \<open>0x1C\<close> to \<open>0x1F\<close> are not skipped.
\<close>

definition is_int_space :: "char \<Rightarrow> bool" where
  "is_int_space c = (c \<in> set [CHR 0x09, CHR 0x0A, CHR 0x0B, CHR 0x0C, CHR 0x0D, CHR '' '',
                               CHR 0x85, CHR 0xA0])"

text \<open>
  \<open>int(s)\<close> for a string: surrounding whitespace is dropped, one sign is allowed, the
  rest is a decimal literal of at most 4300 digits (the default limit of the interpreter);
  \<open>None\<close> stands for the \<open>ValueError\<close> of any other text.
\<close>

definition int_of_str :: "string \<Rightarrow> int option" where
  "int_of_str s =
     (let t = rstrip_chars is_int_space (dropWhile is_int_space s);
          neg = (case t of [] \<Rightarrow> False | c # r \<Rightarrow> c = CHR ''-'');
          body = (case t of [] \<Rightarrow> [] | c # r \<Rightarrow> if c = CHR ''-'' \<or> c = CHR ''+'' then r else t)
      in if digits_ok body \<and> length (filter is_digit body) \<le> 4300
         then Some (if neg then - digits_value body else digits_value body)
         else None)"

section \<open>Exceptions\<close>

text \<open>
  A Python exception is its class and its message. Only the classes that the handlers of
  the repository tell apart are listed; \<open>HTTPStatusError\<close> (httpx) and
  \<open>HTTPException\<close> (FastAPI) carry their status code. Where a message interpolates the
  text of a library exception (\<open>{e}\<close>), that library text is left out of the message.
\<close>

datatype exc_class =
    JSONDecodeError | ValueError | TypeError | KeyError | AttributeError
  | OverflowError | UnboundLocalError | ValidationError
  | HTTPStatusError nat | HTTPException nat | OtherException

datatype exc = Exc exc_class string

fun exc_cls :: "exc \<Rightarrow> exc_class" where
  "exc_cls (Exc c m) = c"

fun exc_msg :: "exc \<Rightarrow> string" where
  "exc_msg (Exc c m) = m"

text \<open>\<open>except ValueError\<close> also catches the subclasses of \<open>ValueError\<close>.\<close>

definition is_ValueError :: "exc_class \<Rightarrow> bool" where
  "is_ValueError c = (c = ValueError \<or> c = JSONDecodeError \<or> c = ValidationError)"

definition ebind :: "exc + 'a \<Rightarrow> ('a \<Rightarrow> exc + 'b) \<Rightarrow> exc + 'b" where
  "ebind m f = (case m of Inl e \<Rightarrow> Inl e | Inr x \<Rightarrow> f x)"

section \<open>utils/cache.py: CacheManager\<close>

text \<open>
  A \<open>datetime\<close> is the number of microseconds since 0001-01-01T00:00:00, its resolution;
  the largest one is 9999-12-31T23:59:59.999999. \<open>datetime.utcnow() + timedelta(seconds=ttl)\<close>
  raises \<open>OverflowError\<close> when the sum leaves that range (and \<open>timedelta\<close> itself does
  for a \<open>ttl\<close> even further out).
\<close>

definition datetime_max :: int where
  "datetime_max = 315537897599999999"

definition datetime_add_seconds :: "int \<Rightarrow> int \<Rightarrow> exc + int" where
  "datetime_add_seconds now ttl =
     (let r = now + ttl * 1000000
      in if 0 \<le> r \<and> r \<le> datetime_max then Inr r
         else Inl (Exc OverflowError ''date value out of range''))"

text \<open>
  An entry of \<open>in_memory_cache\<close> is the dictionary \<open>{"value": ..., "expires_at": ...}\<close>.
\<close>

record 'v cache_entry =
  entry_value :: 'v
  expires_at :: int

text \<open>
  \<open>redis_client\<close> is \<open>True\<close> when \<open>self.redis_client\<close> is a client object and \<open>False\<close>
  when it is \<open>None\<close>. The Redis server is outside the program: what one call to the client
  does is an argument of the operation that makes the call.
\<close>

record 'v CacheManager =
  enabled :: bool
  ttl :: int
  redis_client :: bool
  in_memory_cache :: "string \<rightharpoonup> 'v cache_entry"

text \<open>
  The outcome of \<open>value = redis_client.get(key)\<close> followed by \<open>json.loads(value)\<close>:
  either call raises; the value is falsy (\<open>None\<close> or empty); or it decodes.
\<close>

datatype 'v primary_read = ReadRaises | ReadFalsy | ReadValue 'v

text \<open>
  The outcome of \<open>redis_client.setex(key, ttl, json.dumps(value))\<close>: either call raises,
  or the write is done.
\<close>

datatype primary_write = WriteRaises | WriteDone

definition memory_get :: "'v CacheManager \<Rightarrow> int \<Rightarrow> string \<Rightarrow> 'v option \<times> 'v CacheManager" where
  "memory_get cm now key =
     (case in_memory_cache cm key of
        None \<Rightarrow> (None, cm)
      | Some entry \<Rightarrow>
          if expires_at entry > now then (Some (entry_value entry), cm)
          else (None, cm\<lparr>in_memory_cache := (in_memory_cache cm)(key := None)\<rparr>))"

definition CacheManager_get ::
  "'v CacheManager \<Rightarrow> 'v primary_read \<Rightarrow> int \<Rightarrow> string \<Rightarrow> 'v option \<times> 'v CacheManager" where
  "CacheManager_get cm redis now key =
     (if redis_client cm then
        (case redis of
           ReadValue v \<Rightarrow> (Some v, cm)
         | ReadFalsy \<Rightarrow> memory_get cm now key
         | ReadRaises \<Rightarrow> memory_get cm now key)
      else memory_get cm now key)"

text \<open>\<open>ttl = ttl or self.ttl\<close>: an absent and a zero \<open>ttl\<close> both give the configured one.\<close>

definition ttl_or :: "int option \<Rightarrow> int \<Rightarrow> int" where
  "ttl_or t d = (case t of None \<Rightarrow> d | Some n \<Rightarrow> if n = 0 then d else n)"

definition memory_set ::
  "'v CacheManager \<Rightarrow> int \<Rightarrow> string \<Rightarrow> 'v \<Rightarrow> int \<Rightarrow> (exc + bool) \<times> 'v CacheManager" where
  "memory_set cm now key v t =
     (case datetime_add_seconds now t of
        Inl e \<Rightarrow> (Inl e, cm)
      | Inr ex \<Rightarrow>
          (Inr True,
           cm\<lparr>in_memory_cache :=
                (in_memory_cache cm)(key \<mapsto> \<lparr>entry_value = v, expires_at = ex\<rparr>)\<rparr>))"

definition CacheManager_set ::
  "'v CacheManager \<Rightarrow> primary_write \<Rightarrow> int \<Rightarrow> string \<Rightarrow> 'v \<Rightarrow> int option
     \<Rightarrow> (exc + bool) \<times> 'v CacheManager" where
  "CacheManager_set cm redis now key v ttl_arg =
     (let t = ttl_or ttl_arg (ttl cm)
      in if redis_client cm then
           (case redis of
              WriteDone \<Rightarrow> (Inr True, cm)
            | WriteRaises \<Rightarrow> memory_set cm now key v t)
         else memory_set cm now key v t)"

section \<open>JSON values\<close>

text \<open>
  What \<open>json.loads\<close> returns: \<open>None\<close>, a \<open>bool\<close>, an \<open>int\<close>, a \<open>float\<close>, a \<open>str\<close>,
  a \<open>list\<close> or a \<open>dict\<close> with string keys (its items, each key once). A finite float
  is its exact rational value; a number too large for a double (\<open>1e999\<close>) and the
  literals \<open>Infinity\<close> and \<open>NaN\<close>, which \<open>json.loads\<close> accepts, are the other floats.
\<close>

datatype pyfloat = Finite rat | PosInf | NegInf | NaN

datatype json =
    JNull | JBool bool | JInt int | JFloat pyfloat | JStr string
  | JList "json list" | JObj "(string \<times> json) list"

text \<open>\<open>d.get(k, dflt)\<close>; on a value that is not a \<open>dict\<close> the attribute is missing.\<close>

definition dict_get :: "json \<Rightarrow> string \<Rightarrow> json \<Rightarrow> exc + json" where
  "dict_get d k dflt =
     (case d of
        JObj kvs \<Rightarrow> Inr (case map_of kvs k of None \<Rightarrow> dflt | Some v \<Rightarrow> v)
      | _ \<Rightarrow> Inl (Exc AttributeError ''object has no attribute get''))"

text \<open>\<open>int(x)\<close> of a float rounds towards zero.\<close>

definition trunc_rat :: "rat \<Rightarrow> int" where
  "trunc_rat q = (if q < 0 then - \<lfloor>- q\<rfloor> else \<lfloor>q\<rfloor>)"

definition py_int :: "json \<Rightarrow> exc + int" where
  "py_int x =
     (case x of
        JNull \<Rightarrow> Inl (Exc TypeError ''int() argument must be a string or a number'')
      | JBool b \<Rightarrow> Inr (if b then 1 else 0)
      | JInt i \<Rightarrow> Inr i
      | JFloat f \<Rightarrow>
          (case f of
             Finite q \<Rightarrow> Inr (trunc_rat q)
           | NaN \<Rightarrow> Inl (Exc ValueError ''cannot convert float NaN to integer'')
           | _ \<Rightarrow> Inl (Exc OverflowError ''cannot convert float infinity to integer''))
      | JStr s \<Rightarrow>
          (case int_of_str s of
             Some i \<Rightarrow> Inr i
           | None \<Rightarrow> Inl (Exc ValueError ''invalid literal for int() with base 10''))
      | _ \<Rightarrow> Inl (Exc TypeError ''int() argument must be a string or a number''))"

section \<open>models/schemas.py\<close>

record PriorityScore =
  score :: int
  justification :: string

record IssueAnalysis =
  summary :: string
  type :: string
  priority_score :: PriorityScore
  suggested_labels :: "string list"
  potential_impact :: string

definition valid_types :: "string list" where
  "valid_types = [''bug'', ''feature_request'', ''documentation'', ''question'', ''other'']"

text \<open>
  pydantic validates a value given for a field annotated \<open>str\<close>: a \<open>str\<close> is accepted as
  it is; which other values are converted and which are refused depends on the version of
  pydantic, so that part is the parameter \<open>coerce\<close> (\<open>None\<close>: the value is refused).
\<close>

definition pydantic_str :: "(json \<Rightarrow> string option) \<Rightarrow> json \<Rightarrow> string option" where
  "pydantic_str coerce v = (case v of JStr s \<Rightarrow> Some s | _ \<Rightarrow> coerce v)"

text \<open>\<open>PriorityScore(score=..., justification=...)\<close> with \<open>ge=1\<close>, \<open>le=5\<close> on the score.\<close>

definition PriorityScore_new ::
  "(json \<Rightarrow> string option) \<Rightarrow> int \<Rightarrow> json \<Rightarrow> exc + PriorityScore" where
  "PriorityScore_new coerce sc just =
     (case pydantic_str coerce just of
        Some j \<Rightarrow>
          if 1 \<le> sc \<and> sc \<le> 5 then Inr \<lparr>score = sc, justification = j\<rparr>
          else Inl (Exc ValidationError ''score'')
      | None \<Rightarrow> Inl (Exc ValidationError ''justification''))"

text \<open>\<open>IssueAnalysis(...)\<close> with the validator \<open>validate_type\<close> of the class.\<close>

definition IssueAnalysis_new ::
  "(json \<Rightarrow> string option) \<Rightarrow> json \<Rightarrow> string \<Rightarrow> PriorityScore \<Rightarrow> string list \<Rightarrow> json
     \<Rightarrow> exc + IssueAnalysis" where
  "IssueAnalysis_new coerce summary_v ty ps labels impact_v =
     (case (pydantic_str coerce summary_v, pydantic_str coerce impact_v) of
        (Some s, Some p) \<Rightarrow>
          if ty \<notin> set valid_types then Inl (Exc ValidationError ''type'')
          else Inr \<lparr>summary = s, type = ty, priority_score = ps,
                    suggested_labels = labels, potential_impact = p\<rparr>
      | _ \<Rightarrow> Inl (Exc ValidationError ''summary or potential_impact''))"

section \<open>services/llm_service.py: LLMService\<close>

text \<open>
  \<open>_validate_type\<close>: \<open>issue_type not in valid_types\<close> compares with \<open>==\<close> against five
  strings, so only an equal \<open>str\<close> is in the list.
\<close>

definition validate_type :: "json \<Rightarrow> string" where
  "validate_type issue_type =
     (case issue_type of
        JStr s \<Rightarrow> if s \<notin> set valid_types then ''other'' else s
      | _ \<Rightarrow> ''other'')"

text \<open>\<open>_validate_priority_score\<close>: the handler catches \<open>ValueError\<close> and \<open>TypeError\<close>.\<close>

definition validate_priority_score :: "json \<Rightarrow> exc + int" where
  "validate_priority_score sc =
     (case py_int sc of
        Inr score_int \<Rightarrow> if 1 \<le> score_int \<and> score_int \<le> 5 then Inr score_int else Inr 3
      | Inl e \<Rightarrow>
          if is_ValueError (exc_cls e) \<or> exc_cls e = TypeError then Inr 3 else Inl e)"

text \<open>
  \<open>_validate_labels\<close>: \<open>isinstance(label, (str, int))\<close> holds for a \<open>str\<close>, an \<open>int\<close> and
  a \<open>bool\<close>; \<open>label_text\<close> is \<open>str(label).strip()\<close> for those and \<open>None\<close> for the
  elements that the comprehension drops.
\<close>

definition label_text :: "json \<Rightarrow> string option" where
  "label_text label =
     (case label of
        JStr s \<Rightarrow> Some (strip s)
      | JInt i \<Rightarrow> Some (strip (str_int i))
      | JBool b \<Rightarrow> Some (strip (if b then ''True'' else ''False''))
      | _ \<Rightarrow> None)"

definition validate_labels :: "json \<Rightarrow> string list" where
  "validate_labels labels =
     (case labels of
        JList xs \<Rightarrow>
          (let valid_labels = take 5 (List.map_filter label_text xs)
           in if valid_labels \<noteq> [] then valid_labels else [''general''])
      | _ \<Rightarrow> [])"

text \<open>
  What the service calls outside the repository: the Gemini client (its answer to the
  \<open>n\<close>-th call of the process, given the prompt: an exception or \<open>response.text\<close>),
  \<open>re.search\<close> with the pattern of the fenced block (group 1 of the match, if any),
  \<open>json.loads\<close> (\<open>None\<close>: \<open>JSONDecodeError\<close>) and pydantic's conversion to \<open>str\<close>.
\<close>

record llm_env =
  client :: "nat \<Rightarrow> string \<Rightarrow> exc + string"
  re_search :: "string \<Rightarrow> string option"
  json_loads :: "string \<Rightarrow> json option"
  coerce_str :: "json \<Rightarrow> string option"

text \<open>The arguments of \<open>IssueAnalysis(...)\<close> in \<open>_parse_response\<close>, evaluated in order.\<close>

definition build_analysis :: "llm_env \<Rightarrow> json \<Rightarrow> exc + IssueAnalysis" where
  "build_analysis env data =
     ebind (dict_get data ''summary'' (JStr [])) (\<lambda>summary_v.
     ebind (dict_get data ''type'' JNull) (\<lambda>type_v.
     ebind (dict_get data ''priority_score'' (JObj [])) (\<lambda>ps1.
     ebind (dict_get ps1 ''score'' JNull) (\<lambda>score_v.
     ebind (validate_priority_score score_v) (\<lambda>sc.
     ebind (dict_get data ''priority_score'' (JObj [])) (\<lambda>ps2.
     ebind (dict_get ps2 ''justification'' (JStr [])) (\<lambda>just_v.
     ebind (PriorityScore_new (coerce_str env) sc just_v) (\<lambda>ps.
     ebind (dict_get data ''suggested_labels'' (JList [])) (\<lambda>labels_v.
     ebind (dict_get data ''potential_impact'' (JStr [])) (\<lambda>impact_v.
       IssueAnalysis_new (coerce_str env) summary_v (validate_type type_v) ps
         (validate_labels labels_v) impact_v))))))))))"

text \<open>
  \<open>_parse_response\<close>: \<open>JSONDecodeError\<close> and \<open>KeyError\<close> are caught and raised again as
  \<open>ValueError\<close>; every other exception leaves the function as it is.
\<close>

definition json_payload :: "llm_env \<Rightarrow> string \<Rightarrow> string" where
  "json_payload env response_text =
     (case re_search env response_text of
        Some group1 \<Rightarrow> group1
      | None \<Rightarrow> response_text)"

definition parse_response :: "llm_env \<Rightarrow> string \<Rightarrow> exc + IssueAnalysis" where
  "parse_response env response_text =
     (let json_str = json_payload env response_text
      in case json_loads env json_str of
           None \<Rightarrow> Inl (Exc ValueError ''Invalid JSON in response'')
         | Some data \<Rightarrow>
             (case build_analysis env data of
                Inr analysis \<Rightarrow> Inr analysis
              | Inl e \<Rightarrow>
                  if exc_cls e = JSONDecodeError
                    then Inl (Exc ValueError ''Invalid JSON in response'')
                  else if exc_cls e = KeyError
                    then Inl (Exc ValueError ''Missing required field in response'')
                  else Inl e))"

text \<open>
  The state of the client is the list of the prompts sent so far, one per invocation.
  \<open>_call_gemini\<close> raises \<open>ValueError\<close> on an empty text and passes every exception on.
\<close>

definition call_gemini ::
  "llm_env \<Rightarrow> string \<Rightarrow> string list \<Rightarrow> (exc + string) \<times> string list" where
  "call_gemini env prompt sent =
     (case client env (length sent) prompt of
        Inl e \<Rightarrow> (Inl e, sent @ [prompt])
      | Inr text \<Rightarrow>
          if text \<noteq> [] then (Inr text, sent @ [prompt])
          else (Inl (Exc ValueError ''Empty response from Gemini API''), sent @ [prompt]))"

definition json_only_suffix :: string where
  "json_only_suffix =
     [CHR 0x0A, CHR 0x0A] @ ''IMPORTANT: Respond with ONLY valid JSON, no other text.''"

text \<open>
  \<open>analyze_issue\<close>. \<open>prompt\<close> is the value of \<open>create_analysis_prompt\<close> for the arguments of
  the call, which the recursion passes on unchanged. The handler of \<open>JSONDecodeError\<close>
  formats \<open>response\<close> into its log line first: when the exception came out of
  \<open>_call_gemini\<close> that variable is unbound. An exception raised inside a handler, also by
  the recursive call, is not caught by the other handler of the same \<open>try\<close>.
\<close>

function analyze_issue ::
  "llm_env \<Rightarrow> string \<Rightarrow> int \<Rightarrow> int \<Rightarrow> string list \<Rightarrow> (exc + IssueAnalysis) \<times> string list" where
  "analyze_issue env prompt retry_count max_retries sent =
     (case call_gemini env prompt sent of
        (Inl e, sent1) \<Rightarrow>
          if exc_cls e = JSONDecodeError
            then (Inl (Exc UnboundLocalError ''response''), sent1)
          else if retry_count < max_retries
            then analyze_issue env prompt (retry_count + 1) max_retries sent1
          else (Inl e, sent1)
      | (Inr response, sent1) \<Rightarrow>
          (case parse_response env response of
             Inr analysis \<Rightarrow> (Inr analysis, sent1)
           | Inl e \<Rightarrow>
               if exc_cls e = JSONDecodeError then
                 (if retry_count < max_retries then
                    (case call_gemini env (prompt @ json_only_suffix) sent1 of
                       (Inl e2, sent2) \<Rightarrow> (Inl e2, sent2)
                     | (Inr response2, sent2) \<Rightarrow>
                         analyze_issue env prompt (retry_count + 1) max_retries sent2)
                  else (Inl (Exc ValueError
                          (''Failed to parse LLM response after '' @ str_int max_retries
                             @ '' retries'')), sent1))
               else if retry_count < max_retries
                 then analyze_issue env prompt (retry_count + 1) max_retries sent1
               else (Inl e, sent1)))"
  by pat_completeness auto
termination
  by (relation "measure (\<lambda>(env, prompt, retry_count, max_retries, sent).
                   nat (max_retries - retry_count))") auto

declare analyze_issue.simps [simp del]

section \<open>services/github_service.py: GitHubService\<close>

text \<open>\<open>parse_github_url\<close>: every exception raised inside is raised again as \<open>ValueError\<close>.\<close>

definition parse_github_url :: "string \<Rightarrow> exc + (string \<times> string)" where
  "parse_github_url url0 =
     (let u = rstrip_chars (\<lambda>c. c = CHR ''/'') (strip url0);
          parts = split_on CHR ''/'' u;
          owner = parts ! (length parts - 2);
          repo = replace_all ''.git'' [] (last parts)
      in if contains ''github.com'' u then
           (if length parts \<ge> 2 then
              (if owner \<noteq> [] \<and> repo \<noteq> [] then Inr (owner, repo)
               else Inl (Exc ValueError (''Invalid GitHub URL: '' @ u)))
            else Inl (Exc ValueError (''Invalid GitHub URL: '' @ u)))
         else Inl (Exc ValueError (''Invalid GitHub URL: '' @ u)))"

record GitHubIssue =
  issue_title :: string
  issue_body :: string
  issue_comments :: "string list"
  issue_url :: string
  issue_state :: string
  issue_labels :: "string list"
  issue_created_at :: string
  issue_updated_at :: string
  issue_author :: string
  issue_reactions :: "(string \<times> int) list"

text \<open>
  What the two requests of \<open>fetch_issue\<close> to the GitHub API come to: the issue record
  built from the answers, an \<open>HTTPStatusError\<close> of \<open>raise_for_status\<close> with its status
  code, or any other exception (a timeout, a malformed answer).
\<close>

datatype http_outcome = Fetched GitHubIssue | StatusError nat | Failed exc

definition fetch_issue ::
  "string option \<Rightarrow> string \<Rightarrow> string \<Rightarrow> int \<Rightarrow> http_outcome \<Rightarrow> exc + GitHubIssue" where
  "fetch_issue github_token owner repo issue_no outcome =
     (case outcome of
        Fetched issue \<Rightarrow> Inr issue
      | StatusError code \<Rightarrow>
          if code = 404 then
            Inl (Exc ValueError
                   (''Issue #'' @ str_int issue_no @ '' not found in '' @ owner @ ''/'' @ repo))
          else if code = 403 then
            Inl (Exc ValueError
                   (''GitHub API rate limit exceeded.'' @
                    (if github_token = None \<or> github_token = Some []
                     then '' Add a GITHUB_TOKEN to .env to increase limits.'' else [])))
          else Inl (Exc (HTTPStatusError code) [])
      | Failed e \<Rightarrow> Inl e)"

section \<open>api/routes.py\<close>

record AnalysisRequest =
  github_url :: string
  issue_number :: int
  use_cache :: bool

text \<open>
  \<open>AnalysisRequest(github_url=..., issue_number=...)\<close>: the validator of \<open>github_url\<close> and
  the bound \<open>gt=0\<close> of \<open>issue_number\<close>; \<open>use_cache\<close> defaults to \<open>True\<close>.
\<close>

definition AnalysisRequest_new :: "string \<Rightarrow> int \<Rightarrow> exc + AnalysisRequest" where
  "AnalysisRequest_new u n =
     (if \<not> contains ''github.com'' u then Inl (Exc ValidationError ''Must be a valid GitHub URL'')
      else if \<not> n > 0 then Inl (Exc ValidationError ''issue_number'')
      else Inr \<lparr>github_url = u, issue_number = n, use_cache = True\<rparr>)"

record Stats =
  total_analyses :: int
  cache_hits :: int
  cache_misses :: int
  errors :: int
  response_times :: "rat list"

text \<open>The module's globals: the statistics and the cache manager (of analysis dicts).\<close>

record app_state =
  stats :: Stats
  cache_manager :: "IssueAnalysis CacheManager"

text \<open>\<open>settings\<close> comes from \<open>app.core.config\<close>; the two values used below are parameters.\<close>

record settings =
  DEBUG :: bool
  GITHUB_TOKEN :: "string option"

text \<open>
  What happens outside the process while one request is served: the answers of Redis, the
  clock at the two cache operations, the answer of \<open>validate_repository\<close>, the outcome of
  the requests of \<open>fetch_issue\<close>, the result of \<open>llm_service.analyze_issue\<close>, and the
  time the request has taken when it is measured.
\<close>

record request_env =
  redis_read :: "IssueAnalysis primary_read"
  now_get :: int
  repository_ok :: bool
  issue_fetch :: http_outcome
  llm_result :: "exc + IssueAnalysis"
  redis_write :: primary_write
  now_set :: int
  elapsed :: rat

record Metadata =
  analysis_time_ms :: int
  cached :: bool
  md_issue_url :: string
  md_author :: "string option"
  md_state :: "string option"
  md_existing_labels :: "string list option"

record AnalysisResponse =
  success :: bool
  data :: "IssueAnalysis option"
  metadata :: Metadata

text \<open>\<open>IssueAnalysis(**cached_result)\<close> validates the cached dict again.\<close>

definition IssueAnalysis_of_dict :: "IssueAnalysis \<Rightarrow> exc + IssueAnalysis" where
  "IssueAnalysis_of_dict d =
     (if type d \<in> set valid_types \<and> 1 \<le> score (priority_score d) \<and> score (priority_score d) \<le> 5
      then Inr d else Inl (Exc ValidationError ''IssueAnalysis''))"

definition count_error :: "app_state \<Rightarrow> app_state" where
  "count_error st = st\<lparr>stats := (stats st)\<lparr>errors := errors (stats st) + 1\<rparr>\<rparr>"

text \<open>
  The two outer handlers of the endpoint: an \<open>HTTPException\<close> is raised again, every
  other exception is counted and becomes a 500.
\<close>

definition outer_handlers ::
  "settings \<Rightarrow> exc \<Rightarrow> app_state \<Rightarrow> (exc + AnalysisResponse) \<times> app_state" where
  "outer_handlers cfg e st =
     (case exc_cls e of
        HTTPException code \<Rightarrow> (Inl e, st)
      | _ \<Rightarrow>
          (Inl (Exc (HTTPException 500)
                  (if DEBUG cfg then ''Internal server error: '' @ exc_msg e
                   else ''Internal server error'')),
           count_error st))"

text \<open>The endpoint after the cache has been consulted: validate, fetch, analyze, store.\<close>

definition analyze_fresh ::
  "settings \<Rightarrow> request_env \<Rightarrow> AnalysisRequest \<Rightarrow> string \<Rightarrow> string \<Rightarrow> string \<Rightarrow> app_state
     \<Rightarrow> (exc + AnalysisResponse) \<times> app_state" where
  "analyze_fresh cfg env request owner repo cache_key st =
     (if \<not> repository_ok env then
        outer_handlers cfg
          (Exc (HTTPException 404) (''Repository '' @ owner @ ''/'' @ repo @ '' not found or is private''))
          (count_error st)
      else
        (case fetch_issue (GITHUB_TOKEN cfg) owner repo (issue_number request) (issue_fetch env) of
           Inl e \<Rightarrow> outer_handlers cfg e st
         | Inr github_issue \<Rightarrow>
             (case llm_result env of
                Inl e \<Rightarrow> outer_handlers cfg e st
              | Inr analysis \<Rightarrow>
                  (case CacheManager_set (cache_manager st) (redis_write env) (now_set env)
                          cache_key analysis None of
                     (Inl e, cm) \<Rightarrow> outer_handlers cfg e (st\<lparr>cache_manager := cm\<rparr>)
                   | (Inr ok, cm) \<Rightarrow>
                       (Inr \<lparr>success = True, data = Some analysis,
                             metadata = \<lparr>analysis_time_ms = trunc_rat (elapsed env * 1000),
                                         cached = False,
                                         md_issue_url = issue_url github_issue,
                                         md_author = Some (issue_author github_issue),
                                         md_state = Some (issue_state github_issue),
                                         md_existing_labels = Some (issue_labels github_issue)\<rparr>\<rparr>,
                        st\<lparr>cache_manager := cm,
                            stats := (stats st)\<lparr>total_analyses := total_analyses (stats st) + 1,
                                               response_times :=
                                                 response_times (stats st) @ [elapsed env]\<rparr>\<rparr>)))))"

text \<open>The endpoint \<open>POST /analyze\<close> (\<open>analyze_issue\<close> of the routes module).\<close>

definition route_analyze_issue ::
  "settings \<Rightarrow> request_env \<Rightarrow> AnalysisRequest \<Rightarrow> app_state
     \<Rightarrow> (exc + AnalysisResponse) \<times> app_state" where
  "route_analyze_issue cfg env request st =
     (case parse_github_url (github_url request) of
        Inl e \<Rightarrow>
          if is_ValueError (exc_cls e)
          then outer_handlers cfg (Exc (HTTPException 400) (exc_msg e)) (count_error st)
          else outer_handlers cfg e st
      | Inr (owner, repo) \<Rightarrow>
          (let cache_key = owner @ ''/'' @ repo @ ''#'' @ str_int (issue_number request)
           in if use_cache request then
                (case CacheManager_get (cache_manager st) (redis_read env) (now_get env) cache_key of
                   (Some cached_result, cm) \<Rightarrow>
                     (let st1 = st\<lparr>cache_manager := cm,
                                   stats := (stats st)\<lparr>cache_hits := cache_hits (stats st) + 1,
                                                      response_times :=
                                                        response_times (stats st) @ [elapsed env]\<rparr>\<rparr>
                      in case IssueAnalysis_of_dict cached_result of
                           Inl e \<Rightarrow> outer_handlers cfg e st1
                         | Inr a \<Rightarrow>
                             (Inr \<lparr>success = True, data = Some a,
                                   metadata = \<lparr>analysis_time_ms = trunc_rat (elapsed env * 1000),
                                               cached = True,
                                               md_issue_url =
                                                 ''https://github.com/'' @ owner @ ''/'' @ repo
                                                   @ ''/issues/'' @ str_int (issue_number request),
                                               md_author = None, md_state = None,
                                               md_existing_labels = None\<rparr>\<rparr>,
                              st1))
                 | (None, cm) \<Rightarrow>
                     analyze_fresh cfg env request owner repo cache_key
                       (st\<lparr>cache_manager := cm,
                           stats := (stats st)\<lparr>cache_misses := cache_misses (stats st) + 1\<rparr>\<rparr>))
              else analyze_fresh cfg env request owner repo cache_key st))"

text \<open>
  An element of the body of \<open>POST /analyze-batch\<close>: a dict whose keys \<open>github_url\<close> and
  \<open>issue_number\<close> may be absent (\<open>None\<close>); \<open>item["..."]\<close> raises \<open>KeyError\<close> then.
\<close>

record batch_item =
  item_github_url :: "string option"
  item_issue_number :: "int option"

definition request_of_item :: "batch_item \<Rightarrow> exc + AnalysisRequest" where
  "request_of_item item =
     (case item_github_url item of
        None \<Rightarrow> Inl (Exc KeyError ''github_url'')
      | Some u \<Rightarrow>
          (case item_issue_number item of
             None \<Rightarrow> Inl (Exc KeyError ''issue_number'')
           | Some n \<Rightarrow> AnalysisRequest_new u n))"

datatype 'r batch_entry = Analysis 'r | Failure string

text \<open>
  The loop of \<open>analyze_batch\<close>. \<open>pipeline\<close> is the call \<open>analyze_issue(request)\<close> of the
  endpoint above, as a function of the state of the process. Only an \<open>HTTPException\<close> is
  caught; any other exception leaves the loop and the endpoint.
\<close>

fun batch_loop ::
  "(AnalysisRequest \<Rightarrow> 's \<Rightarrow> (exc + 'r) \<times> 's) \<Rightarrow> batch_item list \<Rightarrow> 'r batch_entry list \<Rightarrow> 's
     \<Rightarrow> (exc + 'r batch_entry list) \<times> 's" where
  "batch_loop pipeline [] results st = (Inr results, st)"
| "batch_loop pipeline (item # rest) results st =
     (case request_of_item item of
        Inl e \<Rightarrow>
          (case exc_cls e of
             HTTPException code \<Rightarrow> batch_loop pipeline rest (results @ [Failure (exc_msg e)]) st
           | _ \<Rightarrow> (Inl e, st))
      | Inr request \<Rightarrow>
          (case pipeline request st of
             (Inr result, st1) \<Rightarrow> batch_loop pipeline rest (results @ [Analysis result]) st1
           | (Inl e, st1) \<Rightarrow>
               (case exc_cls e of
                  HTTPException code \<Rightarrow>
                    batch_loop pipeline rest (results @ [Failure (exc_msg e)]) st1
                | _ \<Rightarrow> (Inl e, st1))))"

text \<open>The answer is \<open>{"analyses": results, "total": len(urls_and_issues)}\<close>.\<close>

definition analyze_batch ::
  "(AnalysisRequest \<Rightarrow> 's \<Rightarrow> (exc + 'r) \<times> 's) \<Rightarrow> batch_item list \<Rightarrow> 's
     \<Rightarrow> (exc + ('r batch_entry list \<times> nat)) \<times> 's" where
  "analyze_batch pipeline urls_and_issues st =
     (if length urls_and_issues > 5
      then (Inl (Exc (HTTPException 400) ''Maximum 5 issues per batch''), st)
      else (case batch_loop pipeline urls_and_issues [] st of
              (Inl e, st1) \<Rightarrow> (Inl e, st1)
            | (Inr results, st1) \<Rightarrow> (Inr (results, length urls_and_issues), st1)))"

section \<open>The label rule in words\<close>

text \<open>
  The rule for a sequence of labels, read off as a specification: go through the elements
  in order, keep those that are strings or integers (a \<open>bool\<close> is an \<open>int\<close>), each as its
  text without surrounding whitespace, and drop the others; the first five of what was kept
  are the labels, and \<open>general\<close> stands in when nothing was kept.
\<close>

fun kept_labels :: "json list \<Rightarrow> string list" where
  "kept_labels [] = []"
| "kept_labels (JStr s # xs) = strip s # kept_labels xs"
| "kept_labels (JInt i # xs) = strip (str_int i) # kept_labels xs"
| "kept_labels (JBool b # xs) = (if b then ''True'' else ''False'') # kept_labels xs"
| "kept_labels (x # xs) = kept_labels xs"

definition labels_rule :: "json list \<Rightarrow> string list" where
  "labels_rule xs = (if take 5 (kept_labels xs) = [] then [''general''] else take 5 (kept_labels xs))"

section \<open>Example inputs\<close>

definition demo_analysis :: IssueAnalysis where
  "demo_analysis =
     \<lparr>summary = ''Rendering is slow on large lists'', type = ''bug'',
      priority_score = \<lparr>score = 4, justification = ''Blocks production use''\<rparr>,
      suggested_labels = [''bug'', ''urgent''], potential_impact = ''Browser hangs''\<rparr>"

text \<open>A manager with a Redis client, the default TTL of a day and nothing in memory.\<close>

definition demo_cm :: "IssueAnalysis CacheManager" where
  "demo_cm = \<lparr>enabled = True, ttl = 86400, redis_client = True, in_memory_cache = Map.empty\<rparr>"

text \<open>A moment in the year 2025, in microseconds, and the cache key of the examples.\<close>

definition demo_now :: int where
  "demo_now = 63900000000000000"

definition demo_key :: string where
  "demo_key = ''acme/widgets#42''"



text \<open>A model that answers with prose every time; no text of it parses as JSON.\<close>

definition noisy_env :: llm_env where
  "noisy_env = \<lparr>client = (\<lambda>n p. Inr ''Sure! Here is the analysis.''),
                re_search = (\<lambda>s. None),
                json_loads = (\<lambda>s. None),
                coerce_str = (\<lambda>v. None)\<rparr>"

text \<open>
  A model whose reply is valid JSON with a score too large for a double, which
  \<open>json.loads\<close> reads as the float infinity.
\<close>

definition inf_reply :: string where
  "inf_reply = ''{\"priority_score\": {\"score\": 1e999}}''"

definition inf_env :: llm_env where
  "inf_env = \<lparr>client = (\<lambda>n p. Inr inf_reply),
              re_search = (\<lambda>s. None),
              json_loads = (\<lambda>s. if s = inf_reply
                                 then Some (JObj [(''priority_score'',
                                                   JObj [(''score'', JFloat PosInf)])])
                                 else None),
              coerce_str = (\<lambda>v. None)\<rparr>"

text \<open>
  A model whose reply parses, with a type outside the enum, a score out of range, and
  labels of mixed kinds: the reply is the object given to \<open>json_loads\<close> below.
\<close>

definition odd_reply :: string where
  "odd_reply =
     ''{\"summary\": \"Login fails\", \"type\": \"security\", '' @
     ''\"priority_score\": {\"score\": 7, \"justification\": \"Severe\"}, '' @
     ''\"suggested_labels\": [null, \" auth \", 7], '' @
     ''\"potential_impact\": \"Users locked out\"}''"

definition odd_object :: json where
  "odd_object =
     JObj [(''summary'', JStr ''Login fails''),
           (''type'', JStr ''security''),
           (''priority_score'', JObj [(''score'', JInt 7), (''justification'', JStr ''Severe'')]),
           (''suggested_labels'', JList [JNull, JStr '' auth '', JInt 7]),
           (''potential_impact'', JStr ''Users locked out'')]"

definition odd_env :: llm_env where
  "odd_env = \<lparr>client = (\<lambda>n p. Inr odd_reply),
              re_search = (\<lambda>s. None),
              json_loads = (\<lambda>s. if s = odd_reply then Some odd_object else None),
              coerce_str = (\<lambda>v. None)\<rparr>"

definition odd_analysis :: IssueAnalysis where
  "odd_analysis =
     \<lparr>summary = ''Login fails'', type = ''other'',
      priority_score = \<lparr>score = 3, justification = ''Severe''\<rparr>,
      suggested_labels = [''auth'', ''7''], potential_impact = ''Users locked out''\<rparr>"

text \<open>Two items of a batch: the first names another host, the second is well formed.\<close>

definition gitlab_item :: batch_item where
  "gitlab_item = \<lparr>item_github_url = Some ''https://gitlab.com/acme/widgets'',
                   item_issue_number = Some 1\<rparr>"

definition widgets_item :: batch_item where
  "widgets_item = \<lparr>item_github_url = Some ''https://github.com/acme/widgets'',
                    item_issue_number = Some 42\<rparr>"

section \<open>Properties of the cache\<close>

lemma memory_set_in_range:
  assumes "datetime_add_seconds now t = Inr ex"
  shows "memory_set cm now key v t =
           (Inr True,
            cm\<lparr>in_memory_cache :=
                 (in_memory_cache cm)(key \<mapsto> \<lparr>entry_value = v, expires_at = ex\<rparr>)\<rparr>)"
  using assms by (simp add: memory_set_def)


text \<open>With no client, or when the write raises, \<open>set\<close> is the in-memory write.\<close>

lemma set_in_process:
  assumes "\<not> redis_client cm \<or> w = WriteRaises"
  shows "CacheManager_set cm w now key v ttl_arg =
           memory_set cm now key v (ttl_or ttl_arg (ttl cm))"
  using assms by (auto simp: CacheManager_set_def Let_def)

text \<open>
  The TTL of a write, as the caller sees it: a TTL given in the call and different from
  zero counts; a call that gives none, or gives zero, writes with the configured TTL.
\<close>

lemma ttl_or_cases:
  assumes "(ttl_arg = Some t \<and> t \<noteq> 0) \<or> ((ttl_arg = None \<or> ttl_arg = Some 0) \<and> t = d)"
  shows "ttl_or ttl_arg d = t"
  using assms by (auto simp: ttl_or_def)

lemma datetime_add_seconds_in_range:
  assumes "0 \<le> now + t * 1000000" and "now + t * 1000000 \<le> datetime_max"
  shows "datetime_add_seconds now t = Inr (now + t * 1000000)"
  using assms by (simp add: datetime_add_seconds_def)






text \<open>
  Claim C8, as stated, fails for a TTL that takes the expiry time beyond the last
  \<open>datetime\<close>: with the Redis write raising and a TTL of 300000000000 seconds the sum
  \<open>datetime.utcnow() + timedelta(seconds=ttl)\<close> raises \<open>OverflowError\<close>, which leaves
  \<open>set\<close>, and nothing is written to the in-process mapping.
\<close>

theorem set_overflow_counterexample:
  "CacheManager_set demo_cm WriteRaises demo_now demo_key demo_analysis (Some 300000000000)
     = (Inl (Exc OverflowError ''date value out of range''), demo_cm)
   \<and> in_memory_cache demo_cm demo_key = None"
  by (simp add: CacheManager_set_def memory_set_def datetime_add_seconds_def ttl_or_def
        demo_cm_def demo_now_def datetime_max_def)

text \<open>
  Claim C8, amended. For every key and value, when the Redis write raises and the expiry
  time, the current time plus the TTL of the write, is a \<open>datetime\<close> (from year 1 to the
  end of year 9999), \<open>set\<close> still writes the value to the in-process mapping, with that
  expiry time, and returns \<open>True\<close>: the failure of the primary is not passed on to the
  caller. The TTL of the write is the one given in the call when that is different from
  zero, and the configured one otherwise.
\<close>

theorem set_survives_primary_failure:
  assumes "redis_client cm"
    and t: "(ttl_arg = Some t \<and> t \<noteq> 0)
              \<or> ((ttl_arg = None \<or> ttl_arg = Some 0) \<and> t = ttl cm)"
    and lo: "0 \<le> now + t * 1000000"
    and hi: "now + t * 1000000 \<le> 315537897599999999"
  shows "CacheManager_set cm WriteRaises now key v ttl_arg =
           (Inr True,
            cm\<lparr>in_memory_cache :=
                 (in_memory_cache cm)
                   (key \<mapsto> \<lparr>entry_value = v, expires_at = now + t * 1000000\<rparr>)\<rparr>)"
proof -
  have tt: "ttl_or ttl_arg (ttl cm) = t"
    using t by (rule ttl_or_cases)
  have "datetime_add_seconds now t = Inr (now + t * 1000000)"
    using lo hi by (intro datetime_add_seconds_in_range) (simp_all add: datetime_max_def)
  then show ?thesis
    using assms(1) by (simp add: set_in_process tt memory_set_in_range)
qed

theorem set_survives_primary_failure_witness:
  "redis_client demo_cm
   \<and> 0 \<le> demo_now + 3600 * 1000000
   \<and> demo_now + 3600 * 1000000 \<le> 315537897599999999
   \<and> CacheManager_set demo_cm WriteRaises demo_now demo_key demo_analysis (Some 3600) =
       (Inr True,
        demo_cm\<lparr>in_memory_cache :=
                  (in_memory_cache demo_cm)
                    (demo_key \<mapsto> \<lparr>entry_value = demo_analysis,
                                   expires_at = demo_now + 3600 * 1000000\<rparr>)\<rparr>)"
proof -
  have c: "redis_client demo_cm" by (simp add: demo_cm_def)
  have h: "(Some (3600::int) = Some 3600 \<and> (3600::int) \<noteq> 0)
             \<or> ((Some (3600::int) = None \<or> Some (3600::int) = Some 0) \<and> 3600 = ttl demo_cm)"
    by simp
  have lo: "0 \<le> demo_now + 3600 * 1000000" by (simp add: demo_now_def)
  have hi: "demo_now + 3600 * 1000000 \<le> 315537897599999999" by (simp add: demo_now_def)
  show ?thesis
    using c lo hi set_survives_primary_failure[OF c h lo hi] by simp
qed

text \<open>
  Claim C10. When the Redis write succeeds, \<open>set\<close> returns \<open>True\<close> and leaves the
  in-process mapping as it was, so the write is in the primary tier only: a key that was
  not in memory before is still not there, and a \<open>get\<close> for it while Redis is unreachable
  returns nothing.
\<close>

theorem primary_write_leaves_memory_untouched:
  assumes "redis_client cm"
  shows "CacheManager_set cm WriteDone now key v ttl_arg = (Inr True, cm)
       \<and> (in_memory_cache cm key = None \<longrightarrow>
            CacheManager_get (snd (CacheManager_set cm WriteDone now key v ttl_arg))
               ReadRaises now' key = (None, cm))"
  using assms by (simp add: CacheManager_set_def CacheManager_get_def memory_get_def Let_def)

theorem primary_write_leaves_memory_untouched_witness:
  "redis_client demo_cm \<and> in_memory_cache demo_cm demo_key = None
   \<and> CacheManager_set demo_cm WriteDone demo_now demo_key demo_analysis None = (Inr True, demo_cm)
   \<and> CacheManager_get demo_cm ReadRaises (demo_now + 1) demo_key = (None, demo_cm)"
proof -
  have c: "redis_client demo_cm" by (simp add: demo_cm_def)
  have m: "in_memory_cache demo_cm demo_key = None" by (simp add: demo_cm_def)
  note th = primary_write_leaves_memory_untouched
               [OF c, of demo_now demo_key demo_analysis None "demo_now + 1"]
  from th have s: "CacheManager_set demo_cm WriteDone demo_now demo_key demo_analysis None
                     = (Inr True, demo_cm)"
    by (rule conjunct1)
  from th m have "CacheManager_get
                    (snd (CacheManager_set demo_cm WriteDone demo_now demo_key demo_analysis None))
                    ReadRaises (demo_now + 1) demo_key = (None, demo_cm)"
    by blast
  then have "CacheManager_get demo_cm ReadRaises (demo_now + 1) demo_key = (None, demo_cm)"
    by (simp add: s)
  with c m s show ?thesis by simp
qed

section \<open>Properties of response parsing\<close>

lemmas strip_defs = strip_def lstrip_def rstrip_chars_def is_space_def

lemma ebind_Inr: "ebind m f = Inr y \<Longrightarrow> \<exists>x. m = Inr x \<and> f x = Inr y"
  by (cases m) (simp_all add: ebind_def)

lemma dict_get_Inr:
  "dict_get d k dflt = Inr v \<Longrightarrow>
     \<exists>kvs. d = JObj kvs \<and> v = (case map_of kvs k of None \<Rightarrow> dflt | Some x \<Rightarrow> x)"
  by (cases d) (auto simp: dict_get_def)

lemma parse_response_Inr:
  assumes "parse_response env response_text = Inr a"
  shows "\<exists>d. json_loads env (json_payload env response_text) = Some d
            \<and> build_analysis env d = Inr a"
  using assms
  by (auto simp: parse_response_def Let_def split: option.splits sum.splits if_splits)

lemma IssueAnalysis_new_Inr:
  assumes "IssueAnalysis_new coerce summary_v ty ps labels impact_v = Inr a"
  shows "type a = ty \<and> priority_score a = ps \<and> suggested_labels a = labels"
  using assms
  by (auto simp: IssueAnalysis_new_def split: option.splits if_splits)

lemma PriorityScore_new_Inr:
  assumes "PriorityScore_new coerce sc just = Inr ps"
  shows "score ps = sc"
  using assms
  by (auto simp: PriorityScore_new_def split: option.splits if_splits)

text \<open>
  What a successful \<open>_parse_response\<close> says about the parsed value: it is an object, and
  three fields of the analysis are the validators applied to what the object supplies.
\<close>

lemma build_analysis_Inr:
  assumes "build_analysis env d = Inr a"
  shows "\<exists>kvs. d = JObj kvs
           \<and> type a = validate_type (case map_of kvs ''type'' of None \<Rightarrow> JNull | Some x \<Rightarrow> x)
           \<and> suggested_labels a =
               validate_labels
                 (case map_of kvs ''suggested_labels'' of None \<Rightarrow> JList [] | Some x \<Rightarrow> x)
           \<and> (\<exists>sv. dict_get (case map_of kvs ''priority_score'' of None \<Rightarrow> JObj [] | Some x \<Rightarrow> x)
                        ''score'' JNull = Inr sv
                  \<and> validate_priority_score sv = Inr (score (priority_score a)))"
proof -
  from assms obtain summary_v type_v ps1 score_v sc ps2 just_v ps labels_v impact_v where
    s: "dict_get d ''summary'' (JStr []) = Inr summary_v"
    and t: "dict_get d ''type'' JNull = Inr type_v"
    and p1: "dict_get d ''priority_score'' (JObj []) = Inr ps1"
    and sv: "dict_get ps1 ''score'' JNull = Inr score_v"
    and vs: "validate_priority_score score_v = Inr sc"
    and pn: "PriorityScore_new (coerce_str env) sc just_v = Inr ps"
    and l: "dict_get d ''suggested_labels'' (JList []) = Inr labels_v"
    and new: "IssueAnalysis_new (coerce_str env) summary_v (validate_type type_v) ps
                (validate_labels labels_v) impact_v = Inr a"
    unfolding build_analysis_def by (blast dest!: ebind_Inr)
  from s obtain kvs where d: "d = JObj kvs" by (auto dest: dict_get_Inr)
  from t d have tv: "type_v = (case map_of kvs ''type'' of None \<Rightarrow> JNull | Some x \<Rightarrow> x)"
    by (simp add: dict_get_def)
  from l d have lv: "labels_v =
      (case map_of kvs ''suggested_labels'' of None \<Rightarrow> JList [] | Some x \<Rightarrow> x)"
    by (simp add: dict_get_def)
  from p1 d have pv: "ps1 = (case map_of kvs ''priority_score'' of None \<Rightarrow> JObj [] | Some x \<Rightarrow> x)"
    by (simp add: dict_get_def)
  from new have a: "type a = validate_type type_v" "priority_score a = ps"
    "suggested_labels a = validate_labels labels_v"
    by (auto dest: IssueAnalysis_new_Inr)
  from pn have "score ps = sc" by (rule PriorityScore_new_Inr)
  with a vs sv pv tv lv d show ?thesis by auto
qed

lemma odd_parse: "parse_response odd_env odd_reply = Inr odd_analysis"
  by (simp add: parse_response_def json_payload_def odd_env_def odd_object_def build_analysis_def
       ebind_def dict_get_def validate_priority_score_def py_int_def validate_type_def valid_types_def
       validate_labels_def label_text_def List.map_filter_simps strip_defs str_int_def str_nat.simps
       PriorityScore_new_def IssueAnalysis_new_def pydantic_str_def odd_analysis_def)

lemma odd_loads: "json_loads odd_env (json_payload odd_env odd_reply) = Some odd_object"
  by (simp add: odd_env_def json_payload_def)

subsection \<open>The issue type\<close>






subsection \<open>The suggested labels\<close>

lemma strip_bool: "strip (if b then ''True'' else ''False'') = (if b then ''True'' else ''False'')"
  by (simp add: strip_defs)

lemma label_text_simps:
  "label_text (JStr s) = Some (strip s)"
  "label_text (JInt i) = Some (strip (str_int i))"
  "label_text (JBool b) = Some (if b then ''True'' else ''False'')"
  "label_text JNull = None"
  "label_text (JFloat f) = None"
  "label_text (JList ys) = None"
  "label_text (JObj kvs) = None"
  by (simp_all add: label_text_def strip_bool)

lemma map_filter_label_text: "List.map_filter label_text xs = kept_labels xs"
  by (induction xs rule: kept_labels.induct)
     (simp_all add: List.map_filter_simps label_text_simps)

text \<open>On a sequence the code follows the rule in words.\<close>

lemma validate_labels_list: "validate_labels (JList xs) = labels_rule xs"
  by (simp add: validate_labels_def labels_rule_def map_filter_label_text Let_def)

lemma labels_rule_size: "labels_rule xs \<noteq> [] \<and> length (labels_rule xs) \<le> 5"
  by (simp add: labels_rule_def)

text \<open>On anything that is not a sequence the code returns early, with no label at all.\<close>

lemma validate_labels_not_list: "\<not> (\<exists>xs. labels = JList xs) \<Longrightarrow> validate_labels labels = []"
  by (cases labels) (simp_all add: validate_labels_def)

text \<open>
  Claim C2, as stated, fails in two places. An element that is neither a string nor an
  integer is dropped, not turned into a string: \<open>[null, "bug"]\<close> gives the one label
  \<open>bug\<close>, where coercing each element and truncating to five would give two. And a value
  that is not a sequence gives the empty list, not \<open>["general"]\<close>.
\<close>

theorem labels_counterexample:
  "validate_labels (JList [JNull, JStr ''bug'']) = [''bug'']
   \<and> length (validate_labels (JList [JNull, JStr ''bug''])) \<noteq> min 5 (length [JNull, JStr ''bug''])
   \<and> validate_labels (JStr ''bug'') = []
   \<and> validate_labels (JStr ''bug'') \<noteq> [''general'']"
  by (simp add: validate_labels_def label_text_simps List.map_filter_simps strip_defs)

text \<open>
  Claim C2, amended. For every parsed model reply whose \<open>suggested_labels\<close> is missing or
  is a sequence, the resulting labels are the first five of: the elements that are strings
  or integers, in order, each as its text without surrounding whitespace, the other
  elements being dropped; and they are \<open>["general"]\<close> when that leaves nothing. In
  particular a reply without \<open>suggested_labels\<close> yields exactly \<open>["general"]\<close>.
\<close>

theorem labels_of_parsed_reply:
  assumes "parse_response env response_text = Inr a"
  shows "\<exists>kvs. json_loads env (json_payload env response_text) = Some (JObj kvs)
           \<and> (map_of kvs ''suggested_labels'' = None \<longrightarrow> suggested_labels a = [''general''])
           \<and> (\<forall>xs. map_of kvs ''suggested_labels'' = Some (JList xs) \<longrightarrow>
                  suggested_labels a =
                    (if take 5 (kept_labels xs) = [] then [''general'']
                     else take 5 (kept_labels xs)))"
proof -
  from assms obtain d where ld: "json_loads env (json_payload env response_text) = Some d"
    and b: "build_analysis env d = Inr a"
    by (blast dest: parse_response_Inr)
  from b obtain kvs where d: "d = JObj kvs"
    and la: "suggested_labels a =
               validate_labels
                 (case map_of kvs ''suggested_labels'' of None \<Rightarrow> JList [] | Some x \<Rightarrow> x)"
    by (blast dest: build_analysis_Inr)
  have missing: "map_of kvs ''suggested_labels'' = None \<longrightarrow> suggested_labels a = [''general'']"
    by (simp add: la validate_labels_list labels_rule_def)
  have given: "\<forall>xs. map_of kvs ''suggested_labels'' = Some (JList xs) \<longrightarrow>
                  suggested_labels a =
                    (if take 5 (kept_labels xs) = [] then [''general'']
                     else take 5 (kept_labels xs))"
    by (simp add: la validate_labels_list labels_rule_def)
  from ld d have "json_loads env (json_payload env response_text) = Some (JObj kvs)"
    by simp
  with missing given show ?thesis
    by (intro exI[of _ kvs] conjI)
qed

text \<open>
  The example: of the labels \<open>[null, " auth ", 7]\<close> the first is dropped and the other two
  are kept as \<open>auth\<close> and \<open>7\<close>.
\<close>

theorem labels_of_parsed_reply_witness:
  "parse_response odd_env odd_reply = Inr odd_analysis
   \<and> json_loads odd_env (json_payload odd_env odd_reply) = Some odd_object
   \<and> suggested_labels odd_analysis = take 5 (kept_labels [JNull, JStr '' auth '', JInt 7])
   \<and> suggested_labels odd_analysis = [''auth'', ''7'']"
proof -
  from labels_of_parsed_reply[OF odd_parse] obtain kvs where
    l: "json_loads odd_env (json_payload odd_env odd_reply) = Some (JObj kvs)"
    and g: "\<forall>xs. map_of kvs ''suggested_labels'' = Some (JList xs) \<longrightarrow>
                  suggested_labels odd_analysis =
                    (if take 5 (kept_labels xs) = [] then [''general'']
                     else take 5 (kept_labels xs))"
    by blast
  from l have "JObj kvs = odd_object"
    by (simp add: odd_loads)
  then have "map_of kvs ''suggested_labels'' = Some (JList [JNull, JStr '' auth '', JInt 7])"
    by (auto simp: odd_object_def)
  with g have "suggested_labels odd_analysis =
                 (if take 5 (kept_labels [JNull, JStr '' auth '', JInt 7]) = [] then [''general'']
                  else take 5 (kept_labels [JNull, JStr '' auth '', JInt 7]))"
    by blast
  then have k: "suggested_labels odd_analysis = take 5 (kept_labels [JNull, JStr '' auth '', JInt 7])"
    by simp
  have "take 5 (kept_labels [JNull, JStr '' auth '', JInt 7]) = [''auth'', ''7'']"
    by (simp add: strip_defs str_int_def str_nat.simps)
  with k odd_parse odd_loads show ?thesis by simp
qed

subsection \<open>The priority score\<close>

text \<open>
  The score is the integer conversion when that lies in 1..5 and 3 when it lies outside or
  the conversion raises \<open>ValueError\<close> or \<open>TypeError\<close>; the conversion of an infinite float
  raises \<open>OverflowError\<close>, which the validator does not catch.
\<close>

lemma validate_priority_score_cases:
  "validate_priority_score v =
     (case py_int v of
        Inr i \<Rightarrow> Inr (if 1 \<le> i \<and> i \<le> 5 then i else 3)
      | Inl e \<Rightarrow> if v = JFloat PosInf \<or> v = JFloat NegInf then Inl e else Inr 3)"
  by (cases v; simp add: validate_priority_score_def py_int_def is_ValueError_def
        split: pyfloat.splits option.splits)

lemma validate_priority_score_range:
  "validate_priority_score v = Inr n \<Longrightarrow> 1 \<le> n \<and> n \<le> 5"
  by (auto simp: validate_priority_score_cases split: sum.splits if_splits)

lemma validate_priority_score_examples:
  "validate_priority_score (JInt 4) = Inr 4"
  "validate_priority_score (JInt 0) = Inr 3"
  "validate_priority_score (JInt 7) = Inr 3"
  "validate_priority_score (JStr ''high'') = Inr 3"
  "validate_priority_score (JStr '' 4 '') = Inr 4"
  "validate_priority_score (JFloat NaN) = Inr 3"
  "validate_priority_score JNull = Inr 3"
  by (simp_all add: validate_priority_score_def py_int_def is_ValueError_def int_of_str_def
        rstrip_chars_def is_int_space_def digits_value_def digit_val_def is_digit_def)

lemma inf_parse:
  "parse_response inf_env inf_reply =
     Inl (Exc OverflowError ''cannot convert float infinity to integer'')"
  by (simp add: parse_response_def json_payload_def inf_env_def build_analysis_def ebind_def
        dict_get_def validate_priority_score_def py_int_def is_ValueError_def)

lemma inf_client: "client inf_env n p = Inr inf_reply"
  by (simp add: inf_env_def)

lemma inf_reply_not_empty: "inf_reply \<noteq> []"
  by (simp add: inf_reply_def)

text \<open>
  Claim C5 does not hold of the code for a reply whose score is an infinite float, as in
  \<open>{"priority_score": {"score": 1e999}}\<close>: the validator raises \<open>OverflowError\<close>
  instead of returning 3, parsing fails with it, and \<open>analyze_issue\<close> spends its three
  retries on the same reply, four invocations in all, before the error reaches the caller.
\<close>

theorem infinite_score_raises_and_consumes_retries:
  "validate_priority_score (JFloat PosInf) =
     Inl (Exc OverflowError ''cannot convert float infinity to integer'')
   \<and> parse_response inf_env inf_reply =
       Inl (Exc OverflowError ''cannot convert float infinity to integer'')
   \<and> analyze_issue inf_env prompt 0 3 [] =
       (Inl (Exc OverflowError ''cannot convert float infinity to integer''),
        [prompt, prompt, prompt, prompt])"
  by (simp add: analyze_issue.simps call_gemini_def inf_parse inf_client inf_reply_not_empty
        validate_priority_score_cases py_int_def)

section \<open>Properties of the retry loop\<close>

lemma parse_response_unparseable:
  assumes "json_loads env (json_payload env response_text) = None"
  shows "parse_response env response_text = Inl (Exc ValueError ''Invalid JSON in response'')"
  using assms by (simp add: parse_response_def)

text \<open>
  \<open>_parse_response\<close> never lets a \<open>JSONDecodeError\<close> out, so the handler of that class in
  \<open>analyze_issue\<close> is never entered with a response at hand.
\<close>

lemma parse_response_never_JSONDecodeError:
  "parse_response env response_text = Inl e \<Longrightarrow> exc_cls e \<noteq> JSONDecodeError"
  by (auto simp: parse_response_def Let_def split: option.splits sum.splits if_splits)

lemma analyze_issue_step_unparseable:
  assumes c: "client env (length sent) prompt = Inr reply" and ne: "reply \<noteq> []"
    and un: "json_loads env (json_payload env reply) = None"
  shows "analyze_issue env prompt retry_count max_retries sent =
           (if retry_count < max_retries
            then analyze_issue env prompt (retry_count + 1) max_retries (sent @ [prompt])
            else (Inl (Exc ValueError ''Invalid JSON in response''), sent @ [prompt]))"
  using c ne
  by (subst analyze_issue.simps)
     (simp add: call_gemini_def parse_response_unparseable[OF un])

text \<open>
  When every reply is text that does not parse, the call ends after one invocation more
  than there are retries left, every one of them with the unchanged prompt, and the error is
  the one of \<open>_parse_response\<close>.
\<close>

lemma analyze_issue_unparseable:
  assumes bad: "\<And>n p. \<exists>reply. client env n p = Inr reply \<and> reply \<noteq> []
                    \<and> json_loads env (json_payload env reply) = None"
  shows "analyze_issue env prompt retry_count max_retries sent =
           (Inl (Exc ValueError ''Invalid JSON in response''),
            sent @ replicate (nat (max_retries - retry_count) + 1) prompt)"
proof (induction "nat (max_retries - retry_count)" arbitrary: retry_count sent)
  case 0
  from bad[of "length sent" prompt] obtain reply where
    "client env (length sent) prompt = Inr reply" "reply \<noteq> []"
    "json_loads env (json_payload env reply) = None"
    by blast
  from analyze_issue_step_unparseable[OF this] 0 show ?case by simp
next
  case (Suc k)
  from bad[of "length sent" prompt] obtain reply where
    "client env (length sent) prompt = Inr reply" "reply \<noteq> []"
    "json_loads env (json_payload env reply) = None"
    by blast
  note step = analyze_issue_step_unparseable[OF this, of retry_count max_retries]
  from Suc.hyps(2) have lt: "retry_count < max_retries" by simp
  from Suc.hyps(2) have k: "k = nat (max_retries - (retry_count + 1))" by simp
  have n: "nat (max_retries - retry_count) = Suc (nat (max_retries - (retry_count + 1)))"
    using lt by simp
  show ?case
    using step lt Suc.hyps(1)[OF k, of "sent @ [prompt]"]
    by (simp add: n replicate_append_same)
qed

text \<open>
  Claim C1 does not hold of the code. With a model that answers with prose on every
  attempt and the default of three retries there are four invocations, as claimed, and the
  call fails; but each invocation sends the prompt as it is, none carries the appended
  instruction to answer with JSON only, and the error is the \<open>ValueError\<close> of
  \<open>_parse_response\<close>, not the one that names the exhausted retries.
\<close>

theorem unparseable_replies_never_get_json_hint:
  "analyze_issue noisy_env prompt 0 3 [] =
     (Inl (Exc ValueError ''Invalid JSON in response''), [prompt, prompt, prompt, prompt])
   \<and> prompt @ json_only_suffix \<notin> set (snd (analyze_issue noisy_env prompt 0 3 []))
   \<and> fst (analyze_issue noisy_env prompt 0 3 []) \<noteq>
       Inl (Exc ValueError ''Failed to parse LLM response after 3 retries'')"
  by (simp add: analyze_issue.simps call_gemini_def parse_response_def json_payload_def
        noisy_env_def json_only_suffix_def)

section \<open>Properties of the URL parser\<close>

lemma parse_github_url_raises_ValueError:
  "parse_github_url u = Inl e \<Longrightarrow> exc_cls e = ValueError"
  by (auto simp: parse_github_url_def Let_def split: if_splits)

lemma parse_github_url_examples:
  "parse_github_url ''https://github.com/acme/widgets'' = Inr (''acme'', ''widgets'')"
  "parse_github_url '' https://github.com/acme/widgets.git/ '' = Inr (''acme'', ''widgets'')"
  "parse_github_url ''https://github.com/acme'' = Inr (''github.com'', ''acme'')"
  "parse_github_url ''https://github.com/acme//widgets'' =
     Inl (Exc ValueError ''Invalid GitHub URL: https://github.com/acme//widgets'')"
  "parse_github_url ''https://gitlab.com/acme/widgets'' =
     Inl (Exc ValueError ''Invalid GitHub URL: https://gitlab.com/acme/widgets'')"
  by (simp_all add: parse_github_url_def strip_defs)

lemma split_on_absent: "sep \<notin> set s \<Longrightarrow> split_on sep s = [s]"
  by (induction s) auto

lemma split_on_append:
  "sep \<notin> set s \<Longrightarrow> split_on sep (s @ sep # r) = s # split_on sep r"
  by (induction s) auto

lemma contains_append_right: "contains pat s \<Longrightarrow> contains pat (pre @ s)"
  by (induction pre) auto

lemma contains_prefix: "prefix pat s \<Longrightarrow> contains pat s"
  by (cases s) auto

lemma replace_all_absent:
  "old \<noteq> [] \<Longrightarrow> \<not> contains old s \<Longrightarrow> replace_all old new s = s"
  by (induction s) auto

lemma rstrip_chars_id: "s \<noteq> [] \<Longrightarrow> \<not> p (last s) \<Longrightarrow> rstrip_chars p s = s"
  by (cases s rule: rev_cases) (auto simp: rstrip_chars_def)

lemma strip_id:
  "s \<noteq> [] \<Longrightarrow> \<not> is_space (hd s) \<Longrightarrow> \<not> is_space (last s) \<Longrightarrow> strip s = s"
  by (cases s) (auto simp: strip_def lstrip_def rstrip_chars_id simp del: last.simps)

text \<open>
  An address of the usual form, whose repository name contains no \<open>.git\<close>, is resolved
  to its owner and its repository.
\<close>

lemma parse_github_url_plain:
  assumes o: "owner \<noteq> []" "CHR ''/'' \<notin> set owner"
    and r: "repo \<noteq> []" "CHR ''/'' \<notin> set repo" "\<not> is_space (last repo)"
      "\<not> contains ''.git'' repo"
  shows "parse_github_url (''https://github.com/'' @ owner @ ''/'' @ repo) = Inr (owner, repo)"
proof -
  let ?u = "''https://github.com/'' @ owner @ ''/'' @ repo"
  have l: "last ?u = last repo" using r(1) by simp
  have ls: "last repo \<noteq> CHR ''/''" using r(1,2) by (metis last_in_set)
  have s: "strip ?u = ?u"
    using l r(3) by (intro strip_id) (simp_all add: is_space_def)
  have rs: "rstrip_chars (\<lambda>c. c = CHR ''/'') ?u = ?u"
    using l ls by (intro rstrip_chars_id) simp_all
  have sp: "split_on CHR ''/'' ?u = [''https:'', [], ''github.com'', owner, repo]"
    using o(2) r(2) by (simp add: split_on_append split_on_absent)
  have c: "contains ''github.com'' ?u" by simp
  show ?thesis
    unfolding parse_github_url_def s rs Let_def sp
    using c o(1) r(1) by (simp add: replace_all_absent[OF _ r(4)])
qed

text \<open>
  Claim C3 does not hold of the code: \<open>replace\<close> removes \<open>.git\<close> wherever it occurs in
  the last segment, not only at its end, so the repository \<open>acme.github.io\<close> of the owner
  \<open>acme\<close> is resolved to \<open>acmehub.io\<close>.
\<close>

theorem parse_github_url_cuts_inner_git:
  "parse_github_url ''https://github.com/acme/acme.github.io'' = Inr (''acme'', ''acmehub.io'')"
  by (simp add: parse_github_url_def strip_defs)

section \<open>Properties of the endpoints\<close>

lemma fetch_issue_not_found:
  "fetch_issue tok owner repo n (StatusError 404) =
     Inl (Exc ValueError (''Issue #'' @ str_int n @ '' not found in '' @ owner @ ''/'' @ repo))"
  by (simp add: fetch_issue_def)

text \<open>An address that does not parse is answered with 400.\<close>

lemma route_invalid_url:
  assumes "parse_github_url (github_url request) = Inl e"
  shows "route_analyze_issue cfg env request st =
           (Inl (Exc (HTTPException 400) (exc_msg e)), count_error st)"
  using assms parse_github_url_raises_ValueError[OF assms]
  by (simp add: route_analyze_issue_def outer_handlers_def is_ValueError_def)

text \<open>A repository that \<open>validate_repository\<close> does not find is answered with 404.\<close>

lemma analyze_fresh_missing_repository:
  assumes "\<not> repository_ok env"
  shows "analyze_fresh cfg env request owner repo cache_key st =
           (Inl (Exc (HTTPException 404)
                   (''Repository '' @ owner @ ''/'' @ repo @ '' not found or is private'')),
            count_error st)"
  using assms by (simp add: analyze_fresh_def outer_handlers_def)

text \<open>An issue that GitHub does not find is answered with 500, like any unexpected failure.\<close>

lemma analyze_fresh_missing_issue:
  assumes "repository_ok env" and "issue_fetch env = StatusError 404"
  shows "analyze_fresh cfg env request owner repo cache_key st =
           (Inl (Exc (HTTPException 500)
                   (if DEBUG cfg
                    then ''Internal server error: '' @ ''Issue #'' @ str_int (issue_number request)
                           @ '' not found in '' @ owner @ ''/'' @ repo
                    else ''Internal server error'')),
            count_error st)"
  using assms by (simp add: analyze_fresh_def outer_handlers_def fetch_issue_def)

lemma outer_handlers_unexpected:
  assumes "\<And>code. exc_cls e \<noteq> HTTPException code"
  shows "outer_handlers cfg e st =
           (Inl (Exc (HTTPException 500)
                   (if DEBUG cfg then ''Internal server error: '' @ exc_msg e
                    else ''Internal server error'')),
            count_error st)"
  using assms by (cases "exc_cls e") (auto simp: outer_handlers_def)

lemma fetch_issue_class:
  assumes "fetch_issue tok owner repo n outcome = Inl e"
    and "\<forall>x code. outcome = Failed x \<longrightarrow> exc_cls x \<noteq> HTTPException code"
  shows "exc_cls e \<noteq> HTTPException code"
  using assms by (cases outcome) (auto simp: fetch_issue_def split: if_splits)

lemma CacheManager_set_class:
  "CacheManager_set cm w now key v ttl_arg = (Inl e, cm') \<Longrightarrow> exc_cls e = OverflowError"
  by (auto simp: CacheManager_set_def memory_set_def datetime_add_seconds_def Let_def
      split: if_splits primary_write.splits)

lemma analyze_fresh_status:
  assumes "analyze_fresh cfg env request owner repo cache_key st = (Inl e, st')"
    and "\<forall>x code. issue_fetch env = Failed x \<longrightarrow> exc_cls x \<noteq> HTTPException code"
    and "\<forall>x code. llm_result env = Inl x \<longrightarrow> exc_cls x \<noteq> HTTPException code"
  shows "exc_cls e = HTTPException 404 \<or> exc_cls e = HTTPException 500"
proof (cases "repository_ok env")
  case False
  with assms(1) show ?thesis by (auto simp: analyze_fresh_def outer_handlers_def)
next
  case True
  show ?thesis
  proof (cases "fetch_issue (GITHUB_TOKEN cfg) owner repo (issue_number request) (issue_fetch env)")
    case (Inl x)
    from fetch_issue_class[OF Inl assms(2)] have "\<And>code. exc_cls x \<noteq> HTTPException code" .
    with assms(1) True Inl show ?thesis
      by (auto simp: analyze_fresh_def outer_handlers_unexpected)
  next
    case (Inr issue)
    show ?thesis
    proof (cases "llm_result env")
      case (Inl x)
      with assms(3) have "\<And>code. exc_cls x \<noteq> HTTPException code" by blast
      with assms(1) True Inr Inl show ?thesis
        by (auto simp: analyze_fresh_def outer_handlers_unexpected)
    next
      case a: (Inr analysis)
      obtain out cm where s: "CacheManager_set (cache_manager st) (redis_write env) (now_set env)
                          cache_key analysis None = (out, cm)"
        by (cases "CacheManager_set (cache_manager st) (redis_write env) (now_set env)
                          cache_key analysis None")
      show ?thesis
      proof (cases out)
        case (Inl x)
        with s have "exc_cls x = OverflowError" by (auto dest: CacheManager_set_class)
        then have "\<And>code. exc_cls x \<noteq> HTTPException code" by simp
        with assms(1) True Inr a s Inl show ?thesis
          by (auto simp: analyze_fresh_def outer_handlers_unexpected)
      next
        case (Inr ok)
        with assms(1) True \<open>fetch_issue _ _ _ _ _ = Inr issue\<close> a s show ?thesis
          by (simp add: analyze_fresh_def)
      qed
    qed
  qed
qed

text \<open>
  Every failure of the endpoint is an \<open>HTTPException\<close> with status 400, 404 or 500,
  provided the collaborators do not raise an \<open>HTTPException\<close> themselves.
\<close>

lemma route_status:
  assumes "route_analyze_issue cfg env request st = (Inl e, st')"
    and "\<forall>x code. issue_fetch env = Failed x \<longrightarrow> exc_cls x \<noteq> HTTPException code"
    and "\<forall>x code. llm_result env = Inl x \<longrightarrow> exc_cls x \<noteq> HTTPException code"
  shows "exc_cls e = HTTPException 400 \<or> exc_cls e = HTTPException 404
           \<or> exc_cls e = HTTPException 500"
proof (cases "parse_github_url (github_url request)")
  case (Inl x)
  from parse_github_url_raises_ValueError[OF Inl] assms(1) Inl show ?thesis
    by (auto simp: route_analyze_issue_def outer_handlers_def is_ValueError_def)
next
  case (Inr p)
  obtain owner repo where p: "p = (owner, repo)" by (cases p)
  from assms(1) Inr p show ?thesis
    by (auto simp: route_analyze_issue_def Let_def IssueAnalysis_of_dict_def
          outer_handlers_unexpected
          split: if_splits prod.splits option.splits sum.splits
          dest!: analyze_fresh_status[OF _ assms(2) assms(3)])
qed

text \<open>
  Claim C4 does not hold of the code for a missing issue. For an existing repository and
  an issue number that GitHub answers with 404, \<open>fetch_issue\<close> raises the \<open>ValueError\<close>
  that names the issue, the owner and the repository, and the endpoint, which gives 400 to
  the \<open>ValueError\<close> of the URL parser only, answers with 500 and not with 404.
\<close>

theorem missing_issue_is_answered_500:
  "fetch_issue tok ''acme'' ''widgets'' 999999 (StatusError 404) =
     Inl (Exc ValueError ''Issue #999999 not found in acme/widgets'')
   \<and> route_analyze_issue (cfg\<lparr>DEBUG := False\<rparr>)
        (env\<lparr>repository_ok := True, issue_fetch := StatusError 404\<rparr>)
        \<lparr>github_url = ''https://github.com/acme/widgets'', issue_number = 999999,
         use_cache = False\<rparr> st
       = (Inl (Exc (HTTPException 500) ''Internal server error''), count_error st)"
  by (simp add: route_analyze_issue_def parse_github_url_examples analyze_fresh_missing_issue
        fetch_issue_def str_int_def str_nat.simps)

subsection \<open>The batch endpoint\<close>

text \<open>A batch of more than five items is refused before any item is looked at.\<close>

lemma analyze_batch_over_limit:
  assumes "length urls_and_issues > 5"
  shows "analyze_batch pipeline urls_and_issues st =
           (Inl (Exc (HTTPException 400) ''Maximum 5 issues per batch''), st)"
  using assms by (simp add: analyze_batch_def)

text \<open>
  When every item makes a valid request and the pipeline raises nothing but
  \<open>HTTPException\<close>, the loop runs to the end and records one entry for each item.
\<close>

lemma batch_loop_valid_items:
  assumes "\<forall>item \<in> set items. \<exists>request. request_of_item item = Inr request"
    and "\<forall>request s e s'. pipeline request s = (Inl e, s') \<longrightarrow> (\<exists>code. exc_cls e = HTTPException code)"
  shows "\<exists>entries s'. batch_loop pipeline items results st = (Inr (results @ entries), s')
                     \<and> length entries = length items"
  using assms
proof (induction items arbitrary: results st)
  case Nil
  then show ?case by simp
next
  case (Cons item rest)
  from Cons.prems(1) obtain request where rq: "request_of_item item = Inr request"
    by auto
  obtain out s1 where p: "pipeline request st = (out, s1)"
    by (cases "pipeline request st")
  from Cons.prems(1) have rest: "\<forall>item \<in> set rest. \<exists>request. request_of_item item = Inr request"
    by simp
  show ?case
  proof (cases out)
    case (Inr result)
    from Cons.IH[OF rest Cons.prems(2), of "results @ [Analysis result]" s1]
    obtain entries s' where
      "batch_loop pipeline rest (results @ [Analysis result]) s1
         = (Inr ((results @ [Analysis result]) @ entries), s')"
      "length entries = length rest"
      by blast
    with rq p Inr show ?thesis
      by (intro exI[of _ "Analysis result # entries"] exI[of _ s']) simp
  next
    case (Inl e)
    with p Cons.prems(2) obtain code where c: "exc_cls e = HTTPException code"
      by blast
    from Cons.IH[OF rest Cons.prems(2), of "results @ [Failure (exc_msg e)]" s1]
    obtain entries s' where
      "batch_loop pipeline rest (results @ [Failure (exc_msg e)]) s1
         = (Inr ((results @ [Failure (exc_msg e)]) @ entries), s')"
      "length entries = length rest"
      by blast
    with rq p Inl c show ?thesis
      by (intro exI[of _ "Failure (exc_msg e) # entries"] exI[of _ s']) simp
  qed
qed

lemma request_of_item_examples:
  "request_of_item gitlab_item = Inl (Exc ValidationError ''Must be a valid GitHub URL'')"
  "request_of_item widgets_item =
     Inr \<lparr>github_url = ''https://github.com/acme/widgets'', issue_number = 42, use_cache = True\<rparr>"
  by (simp_all add: request_of_item_def AnalysisRequest_new_def gitlab_item_def widgets_item_def)

text \<open>
  Claim C6 does not hold of the code for an item that does not make a valid request. In
  a batch of two whose first item names another host, building the request raises a
  validation error, which is not an \<open>HTTPException\<close>: the batch ends with that error, no
  list of results is returned, and the second, well-formed item is never given to the
  pipeline, whatever the pipeline is.
\<close>

theorem invalid_item_aborts_batch:
  "analyze_batch pipeline [gitlab_item, widgets_item] st =
     (Inl (Exc ValidationError ''Must be a valid GitHub URL''), st)"
  by (simp add: analyze_batch_def request_of_item_examples)

end
